theory Spec2Isabelle
  imports Main
begin

section \<open>Data model\<close>

text \<open>
  The input path of the web client: \<^verbatim>\<open>InputManager\<close>
  (session-view/input-manager.ts) and \<^verbatim>\<open>DesktopIMEInput\<close> (ime-input.ts).

  A JavaScript string is a sequence of UTF-16 code units. It is modelled as a
  \<^typ>\<open>string\<close>, one \<^typ>\<open>char\<close> per code unit, which covers the code units
  below 256; \<open>length\<close> is then the source's \<^verbatim>\<open>.length\<close>, and a string
  is truthy exactly when it is not empty. Only the key mapping (the length of a
  key name, its lower case) and \<^verbatim>\<open>trim\<close> count or inspect code units. The
  delivery functions and the proxy's composition and paste handlers only test a
  text for emptiness, compare it with ASCII literals and pass it on, so for them
  a \<^typ>\<open>string\<close> may as well be read as the UTF-8 bytes of any text.

  Calls of \<^verbatim>\<open>logger.log\<close> and \<^verbatim>\<open>logger.debug\<close> are left out;
  \<^verbatim>\<open>logger.warn\<close> and \<^verbatim>\<open>logger.error\<close> are effects of the model
  (the decorative prefix of a message is dropped).
\<close>

text \<open>The fields of \<^verbatim>\<open>Session\<close> that the input path reads and writes.\<close>

record session =
  sid :: string
  status :: string

text \<open>The wire payload \<^verbatim>\<open>{ text?: string; key?: string }\<close>.\<close>

record input_payload =
  text_field :: "string option"
  key_field :: "string option"

text \<open>
  \<^verbatim>\<open>InputManagerCallbacks\<close>: \<^verbatim>\<open>requestUpdate\<close> is an effect;
  \<^verbatim>\<open>getKeyboardCaptureActive\<close> is optional, \<open>None\<close> when it is absent and
  otherwise the boolean it returns.
\<close>

record callbacks =
  getKeyboardCaptureActive :: "bool option"

text \<open>
  The state of a \<^verbatim>\<open>DesktopIMEInput\<close>: its own flag, the value of the hidden
  input element, and the parts of the document it reads and writes
  (\<open>focused\<close> is \<^verbatim>\<open>document.activeElement === this.input\<close>, the two body
  attributes are the shared signalling flags).
\<close>

record desktop_ime_input =
  isComposing :: bool
  input_value :: string
  focused :: bool
  opacity :: string
  bodyComposingAttr :: bool
  bodyFocusedAttr :: bool
  hasOnSpecialKey :: bool

record input_manager =
  session :: "session option"
  callbacks :: "callbacks option"
  useWebSocketInput :: bool
  lastEscapeTime :: int
  imeInput :: "desktop_ime_input option"

record keyboard_event =
  key :: string
  ctrlKey :: bool
  altKey :: bool
  metaKey :: bool
  shiftKey :: bool

text \<open>
  What a keyboard handler reads from outside the two classes: the predicates of
  \<^verbatim>\<open>utils/ime-constants.js\<close> and \<^verbatim>\<open>utils/browser-shortcuts.js\<close>
  (not part of the sources at hand, so taken as parameters) and the clock
  \<^verbatim>\<open>Date.now()\<close> in milliseconds.
\<close>

record key_env =
  isIMEAllowedKey :: "keyboard_event \<Rightarrow> bool"
  isCopyPasteShortcut :: "keyboard_event \<Rightarrow> bool"
  now :: int

text \<open>
  How the two transports answer one send: the boolean returned by
  \<^verbatim>\<open>websocketInputClient.sendInput\<close>, and how the \<^verbatim>\<open>fetch\<close> of the
  fallback settles (a response with its status code, or a rejection).
\<close>

datatype fetch_result = Response nat | FetchError

record transport =
  ws_accepts :: bool
  fetch_outcome :: fetch_result

text \<open>\<^verbatim>\<open>response.ok\<close> of the Fetch API: the status is in the range 200 to 299.\<close>

definition response_ok :: "nat \<Rightarrow> bool" where
  "response_ok st = (200 \<le> st \<and> st \<le> 299)"

text \<open>Timer callbacks registered by the manager, and the effects it has on the outside.\<close>

datatype timer_callback = DelayedRefreshPosition

datatype effect =
    WsSendInput input_payload bool
  | HttpPost string input_payload
  | RequestUpdate
  | DispatchCaptureToggled bool
  | ConsumeEvent
  | ImeRefreshPosition
  | SetTimeout nat timer_callback
  | LogWarn string
  | LogError string

section \<open>Dual-transport delivery\<close>

text \<open>
  The part of \<^verbatim>\<open>sendInputInternal\<close> after \<^verbatim>\<open>await fetch(...)\<close>: it runs
  when the fallback request settles, on the manager as it is at that moment.
\<close>

definition sendInputInternal_settled ::
  "input_manager \<Rightarrow> string \<Rightarrow> fetch_result \<Rightarrow> input_manager \<times> effect list" where
  "sendInputInternal_settled m errorContext r =
     (case r of
        FetchError \<Rightarrow> (m, [LogError (''error '' @ errorContext)])
      | Response st \<Rightarrow>
          if response_ok st then (m, [])
          else if st = 400 then
            (case session m of
               None \<Rightarrow> (m, [])
             | Some s \<Rightarrow>
                 (m\<lparr>session := Some (s\<lparr>status := ''exited''\<rparr>)\<rparr>,
                  (case callbacks m of None \<Rightarrow> [] | Some c \<Rightarrow> [RequestUpdate])))
          else (m, [LogError (''failed to '' @ errorContext)]))"

text \<open>
  \<^verbatim>\<open>sendInputInternal\<close>, with the request settling before anything else touches
  the manager. \<open>WsSendInput input b\<close> is the call of the persistent channel and the
  boolean it returned, \<open>HttpPost id input\<close> the one POST to
  \<^verbatim>\<open>/api/sessions/<id>/input\<close> with \<^verbatim>\<open>JSON.stringify(input)\<close> as body.
\<close>

definition sendInputInternal ::
  "input_manager \<Rightarrow> input_payload \<Rightarrow> string \<Rightarrow> transport \<Rightarrow> input_manager \<times> effect list" where
  "sendInputInternal m input errorContext t =
     (case session m of
        None \<Rightarrow> (m, [LogWarn ''No session available, cannot send input''])
      | Some s \<Rightarrow>
          if useWebSocketInput m \<and> ws_accepts t then (m, [WsSendInput input True])
          else
            (let tried = (if useWebSocketInput m then [WsSendInput input False] else []);
                 (m', after) = sendInputInternal_settled m errorContext (fetch_outcome t)
             in (m', tried @ [HttpPost (sid s) input] @ after)))"

definition refreshIMEPosition :: "input_manager \<Rightarrow> effect list" where
  "refreshIMEPosition m =
     (case imeInput m of
        None \<Rightarrow> []
      | Some i \<Rightarrow>
          if focused i then [ImeRefreshPosition, SetTimeout 50 DelayedRefreshPosition]
          else [])"

definition sendInputText ::
  "input_manager \<Rightarrow> string \<Rightarrow> transport \<Rightarrow> input_manager \<times> effect list" where
  "sendInputText m txt t =
     (let (m', effs) =
            sendInputInternal m \<lparr>text_field = Some txt, key_field = None\<rparr>
              ''send input to session'' t
      in (m', effs @ refreshIMEPosition m'))"

definition sendControlSequence ::
  "input_manager \<Rightarrow> string \<Rightarrow> transport \<Rightarrow> input_manager \<times> effect list" where
  "sendControlSequence m controlChar t =
     (let (m', effs) =
            sendInputInternal m \<lparr>text_field = Some controlChar, key_field = None\<rparr>
              ''send control sequence to session'' t
      in (m', effs @ refreshIMEPosition m'))"

definition specialKeys :: "string list" where
  "specialKeys =
     [''enter'', ''escape'', ''backspace'', ''tab'', ''shift_tab'',
      ''arrow_up'', ''arrow_down'', ''arrow_left'', ''arrow_right'',
      ''ctrl_enter'', ''shift_enter'', ''page_up'', ''page_down'', ''home'', ''end'',
      ''delete'', ''f1'', ''f2'', ''f3'', ''f4'', ''f5'', ''f6'', ''f7'', ''f8'', ''f9'',
      ''f10'', ''f11'', ''f12'']"

text \<open>
  The payload \<^verbatim>\<open>sendInput\<close> builds:
  \<^verbatim>\<open>specialKeys.includes(inputText) ? { key: inputText } : { text: inputText }\<close>.
\<close>

definition sendInput_payload :: "string \<Rightarrow> input_payload" where
  "sendInput_payload inputText =
     (if inputText \<in> set specialKeys
      then \<lparr>text_field = None, key_field = Some inputText\<rparr>
      else \<lparr>text_field = Some inputText, key_field = None\<rparr>)"

definition sendInput ::
  "input_manager \<Rightarrow> string \<Rightarrow> transport \<Rightarrow> input_manager \<times> effect list" where
  "sendInput m inputText t =
     (let (m', effs) =
            sendInputInternal m (sendInput_payload inputText) ''send input to session'' t
      in (m', effs @ refreshIMEPosition m'))"

section \<open>Key mapping\<close>

definition DOUBLE_ESCAPE_THRESHOLD :: int where
  "DOUBLE_ESCAPE_THRESHOLD = 500"

text \<open>
  \<^verbatim>\<open>toLowerCase\<close> on one code unit below 256: the ASCII capitals and the
  Latin-1 capitals (0xC0 to 0xDE without the multiplication sign 0xD7) move up by 32.
\<close>

definition toLowerCase_char :: "char \<Rightarrow> char" where
  "toLowerCase_char c =
     (let n = (of_char c :: nat)
      in if (65 \<le> n \<and> n \<le> 90) \<or> (192 \<le> n \<and> n \<le> 222 \<and> n \<noteq> 215)
         then char_of (n + 32) else c)"

text \<open>
  The \<^verbatim>\<open>switch (key)\<close> of \<^verbatim>\<open>handleKeyboardInput\<close> without its Escape
  case: the text chosen for the key, or \<open>None\<close> where the handler returns.
\<close>

definition switchKey :: "keyboard_event \<Rightarrow> string option" where
  "switchKey e =
     (if key e = ''Enter'' then
        Some (if ctrlKey e then ''ctrl_enter''
              else if shiftKey e then ''shift_enter''
              else ''enter'')
      else if key e = ''ArrowUp'' then Some ''arrow_up''
      else if key e = ''ArrowDown'' then Some ''arrow_down''
      else if key e = ''ArrowLeft'' then Some ''arrow_left''
      else if key e = ''ArrowRight'' then Some ''arrow_right''
      else if key e = ''Tab'' then Some (if shiftKey e then ''shift_tab'' else ''tab'')
      else if key e = ''Backspace'' then Some ''backspace''
      else if key e = ''Delete'' then Some ''delete''
      else if key e = '' '' then Some '' ''
      else if length (key e) = 1 then Some (key e)
      else None)"

text \<open>
  The block after the switch: Ctrl with a one-character key whose lower case is
  a letter replaces the text by the control character.
\<close>

definition ctrlCombination :: "keyboard_event \<Rightarrow> string \<Rightarrow> string" where
  "ctrlCombination e inputText =
     (if ctrlKey e \<and> length (key e) = 1 \<and> key e \<noteq> ''Enter'' then
        (let charCode = (of_char (toLowerCase_char (hd (key e))) :: nat)
         in if 97 \<le> charCode \<and> charCode \<le> 122
            then [char_of (charCode - 96)] else inputText)
      else inputText)"

text \<open>The two guards on the composition proxy at the head of the handler.\<close>

definition imeBlocks :: "input_manager \<Rightarrow> keyboard_event \<Rightarrow> key_env \<Rightarrow> bool" where
  "imeBlocks m e env =
     (case imeInput m of
        None \<Rightarrow> False
      | Some i \<Rightarrow> (focused i \<and> \<not> isIMEAllowedKey env e) \<or> isComposing i)"

definition handleKeyboardInput ::
  "input_manager \<Rightarrow> keyboard_event \<Rightarrow> key_env \<Rightarrow> transport \<Rightarrow> input_manager \<times> effect list" where
  "handleKeyboardInput m e env t =
     (case session m of
        None \<Rightarrow> (m, [])
      | Some s \<Rightarrow>
          if imeBlocks m e env then (m, [])
          else if key e = ''Escape'' \<and> status s = ''exited'' then (m, [])
          else if status s = ''exited'' then (m, [])
          else if isCopyPasteShortcut env e then (m, [])
          else if altKey e \<and> \<not> ctrlKey e \<and> \<not> metaKey e \<and> \<not> shiftKey e
                  \<and> key e = ''ArrowLeft'' then
            (let (m', effs) = sendInput m [CHR 0x1B, CHR ''b''] t
             in (m', ConsumeEvent # effs))
          else if altKey e \<and> \<not> ctrlKey e \<and> \<not> metaKey e \<and> \<not> shiftKey e
                  \<and> key e = ''ArrowRight'' then
            (let (m', effs) = sendInput m [CHR 0x1B, CHR ''f''] t
             in (m', ConsumeEvent # effs))
          else if altKey e \<and> \<not> ctrlKey e \<and> \<not> metaKey e \<and> \<not> shiftKey e
                  \<and> key e = ''Backspace'' then
            (let (m', effs) = sendInput m [CHR 0x17] t
             in (m', ConsumeEvent # effs))
          else if key e = ''Escape'' then
            (if now env - lastEscapeTime m < DOUBLE_ESCAPE_THRESHOLD then
               (m\<lparr>lastEscapeTime := 0\<rparr>,
                (case callbacks m of
                   None \<Rightarrow> []
                 | Some c \<Rightarrow>
                     [DispatchCaptureToggled
                        (\<not> (case getKeyboardCaptureActive c of
                               None \<Rightarrow> True
                             | Some b \<Rightarrow> b))]))
             else
               sendInput (m\<lparr>lastEscapeTime := now env\<rparr>)
                 (ctrlCombination e ''escape'') t)
          else
            (case switchKey e of
               None \<Rightarrow> (m, [])
             | Some inputText \<Rightarrow> sendInput m (ctrlCombination e inputText) t))"

section \<open>The composition proxy\<close>

text \<open>
  What a handler of \<^verbatim>\<open>DesktopIMEInput\<close> does to the outside: the two option
  callbacks, the two calls on the event, a warning, and a timer.
\<close>

datatype ime_timer = HideIfUnfocused | HideIfUnfocusedAndReposition | BlurGrace

datatype ime_effect =
    OnTextInput string
  | OnSpecialKey string
  | PreventDefault
  | StopPropagation
  | ImeLogWarn string
  | ImeSetTimeout nat ime_timer

definition showInput :: "desktop_ime_input \<Rightarrow> desktop_ime_input" where
  "showInput i = i\<lparr>opacity := ''0.8''\<rparr>"

definition hideInput :: "desktop_ime_input \<Rightarrow> desktop_ime_input" where
  "hideInput i = i\<lparr>opacity := ''0.01''\<rparr>"

definition handleCompositionStart ::
  "desktop_ime_input \<Rightarrow> desktop_ime_input \<times> ime_effect list" where
  "handleCompositionStart i =
     (showInput (i\<lparr>isComposing := True, bodyComposingAttr := True\<rparr>), [])"

definition handleCompositionUpdate ::
  "desktop_ime_input \<Rightarrow> string \<Rightarrow> desktop_ime_input \<times> ime_effect list" where
  "handleCompositionUpdate i d = (i, [])"

definition handleCompositionEnd ::
  "desktop_ime_input \<Rightarrow> string \<Rightarrow> desktop_ime_input \<times> ime_effect list" where
  "handleCompositionEnd i finalText =
     (i\<lparr>isComposing := False, bodyComposingAttr := False, input_value := ''''\<rparr>,
      (if finalText \<noteq> '''' then [OnTextInput finalText]
       else [ImeLogWarn ''IME composition ended with no text''])
      @ [ImeSetTimeout 100 HideIfUnfocusedAndReposition])"

text \<open>
  \<^verbatim>\<open>handleInput\<close>: the event's target is the proxy itself, so the text read
  is its value; the browser has already written the typed text there.
\<close>

definition handleInput ::
  "desktop_ime_input \<Rightarrow> desktop_ime_input \<times> ime_effect list" where
  "handleInput i =
     (if isComposing i then (i, [])
      else if input_value i \<noteq> '''' then
        (i\<lparr>input_value := ''''\<rparr>,
         [OnTextInput (input_value i), ImeSetTimeout 100 HideIfUnfocused])
      else (i, []))"

text \<open>
  \<^verbatim>\<open>String.prototype.trim\<close> on code units below 256: the white space and
  line terminators there are 9 to 13, 32 and 160.
\<close>

definition js_whitespace :: "char \<Rightarrow> bool" where
  "js_whitespace c =
     (let n = (of_char c :: nat) in (9 \<le> n \<and> n \<le> 13) \<or> n = 32 \<or> n = 160)"

definition trim :: "string \<Rightarrow> string" where
  "trim s = rev (dropWhile js_whitespace (rev (dropWhile js_whitespace s)))"

definition handleKeydown ::
  "desktop_ime_input \<Rightarrow> keyboard_event \<Rightarrow> desktop_ime_input \<times> ime_effect list" where
  "handleKeydown i e =
     (if (metaKey e \<or> ctrlKey e) \<and> key e = ''v'' then (i, [])
      else if isComposing i then (i, [])
      else if hasOnSpecialKey i then
        (if key e = ''Enter'' then
           (if trim (input_value i) \<noteq> '''' then
              (i\<lparr>input_value := ''''\<rparr>, [PreventDefault, OnTextInput (input_value i)])
            else (i, [PreventDefault, OnSpecialKey ''enter'']))
         else if key e = ''Backspace'' then
           (if input_value i = '''' then (i, [PreventDefault, OnSpecialKey ''backspace''])
            else (i, []))
         else if key e = ''Tab'' then
           (i, [PreventDefault, OnSpecialKey (if shiftKey e then ''shift_tab'' else ''tab'')])
         else if key e = ''Escape'' then (i, [PreventDefault, OnSpecialKey ''escape''])
         else if key e = ''ArrowUp'' then (i, [PreventDefault, OnSpecialKey ''arrow_up''])
         else if key e = ''ArrowDown'' then (i, [PreventDefault, OnSpecialKey ''arrow_down''])
         else if key e = ''ArrowLeft'' then
           (if input_value i = '''' then (i, [PreventDefault, OnSpecialKey ''arrow_left''])
            else (i, []))
         else if key e = ''ArrowRight'' then
           (if input_value i = '''' then (i, [PreventDefault, OnSpecialKey ''arrow_right''])
            else (i, []))
         else if key e = ''Delete'' then
           (i, [PreventDefault, StopPropagation, OnSpecialKey ''delete''])
         else (i, []))
      else (i, []))"

text \<open>
  \<^verbatim>\<open>handlePaste\<close>: the argument is
  \<^verbatim>\<open>e.clipboardData?.getData('text')\<close>, \<open>None\<close> when the event carries no
  clipboard data.
\<close>

definition handlePaste ::
  "desktop_ime_input \<Rightarrow> string option \<Rightarrow> desktop_ime_input \<times> ime_effect list" where
  "handlePaste i pastedText =
     (case pastedText of
        None \<Rightarrow> (i, [])
      | Some txt \<Rightarrow>
          if txt \<noteq> '''' then (i\<lparr>input_value := ''''\<rparr>, [OnTextInput txt, PreventDefault])
          else (i, []))"

text \<open>
  The target of a paste event as the document-level handler inspects it:
  whether it is the proxy itself, its tag name, its \<^verbatim>\<open>contentEditable\<close>, and
  whether \<^verbatim>\<open>closest\<close> finds an editor or a key-binding context around it.
\<close>

record paste_target =
  isImeInput :: bool
  tagName :: string
  contentEditable :: string
  inMonacoEditor :: bool
  inKeybindingContext :: bool

definition globalPasteHandler ::
  "desktop_ime_input \<Rightarrow> paste_target \<Rightarrow> string option \<Rightarrow> desktop_ime_input \<times> ime_effect list" where
  "globalPasteHandler i target pastedText =
     (if isImeInput target then (i, [])
      else if tagName target = ''INPUT'' \<or> tagName target = ''TEXTAREA''
              \<or> contentEditable target = ''true''
              \<or> inMonacoEditor target \<or> inKeybindingContext target then (i, [])
      else
        (case pastedText of
           None \<Rightarrow> (i, [])
         | Some txt \<Rightarrow>
             if txt \<noteq> '''' then (i, [OnTextInput txt, PreventDefault])
             else (i, [])))"

text \<open>
  One paste event, as the browser dispatches it: the listener on the proxy runs
  when the proxy is the target, then the event bubbles to the listener on the
  document.
\<close>

definition pasteEvent ::
  "desktop_ime_input \<Rightarrow> paste_target \<Rightarrow> string option \<Rightarrow> desktop_ime_input \<times> ime_effect list" where
  "pasteEvent i target pastedText =
     (let (i1, effs1) = (if isImeInput target then handlePaste i pastedText else (i, []));
          (i2, effs2) = globalPasteHandler i1 target pastedText
      in (i2, effs1 @ effs2))"

text \<open>
  The focus and blur listeners. The browser itself moves the focus (the field
  \<open>focused\<close>) before it calls them; the blur listener only starts the grace
  timer.
\<close>

definition handleFocus :: "desktop_ime_input \<Rightarrow> desktop_ime_input \<times> ime_effect list" where
  "handleFocus i = (showInput (i\<lparr>bodyFocusedAttr := True\<rparr>), [])"

definition handleBlur :: "desktop_ime_input \<Rightarrow> desktop_ime_input \<times> ime_effect list" where
  "handleBlur i = (i, [ImeSetTimeout 50 BlurGrace])"

text \<open>The callback of the grace timer, 50 ms after a blur.\<close>

definition blurGraceElapsed :: "desktop_ime_input \<Rightarrow> desktop_ime_input" where
  "blurGraceElapsed i =
     (if focused i then i
      else if isComposing i then i\<lparr>bodyFocusedAttr := False\<rparr>
      else hideInput (i\<lparr>bodyFocusedAttr := False\<rparr>))"

section \<open>The proxy wired to the manager\<close>

text \<open>
  \<^verbatim>\<open>setupIMEInput\<close> creates the proxy with
  \<^verbatim>\<open>onTextInput: (text) => this.sendInputText(text)\<close> and
  \<^verbatim>\<open>onSpecialKey: (key) => this.sendInput(key)\<close>.
\<close>

fun imeCallback ::
  "input_manager \<Rightarrow> ime_effect \<Rightarrow> transport \<Rightarrow> input_manager \<times> effect list" where
  "imeCallback m (OnTextInput txt) t = sendInputText m txt t"
| "imeCallback m (OnSpecialKey k) t = sendInput m k t"
| "imeCallback m PreventDefault t = (m, [])"
| "imeCallback m StopPropagation t = (m, [])"
| "imeCallback m (ImeLogWarn w) t = (m, [])"
| "imeCallback m (ImeSetTimeout n c) t = (m, [])"

fun imeCallbacks ::
  "input_manager \<Rightarrow> ime_effect list \<Rightarrow> transport \<Rightarrow> input_manager \<times> effect list" where
  "imeCallbacks m [] t = (m, [])"
| "imeCallbacks m (x # xs) t =
     (let (m1, effs1) = imeCallback m x t;
          (m2, effs2) = imeCallbacks m1 xs t
      in (m2, effs1 @ effs2))"

text \<open>
  An event on the proxy of a manager: the proxy's handler runs, and the manager
  serves the callbacks it made.
\<close>

definition imeEvent ::
  "input_manager \<Rightarrow> (desktop_ime_input \<Rightarrow> desktop_ime_input \<times> ime_effect list)
     \<Rightarrow> transport \<Rightarrow> input_manager \<times> effect list" where
  "imeEvent m handler t =
     (case imeInput m of
        None \<Rightarrow> (m, [])
      | Some i \<Rightarrow>
          (let (i', xs) = handler i
           in imeCallbacks (m\<lparr>imeInput := Some i'\<rparr>) xs t))"

section \<open>Observations on a trace\<close>

text \<open>The payloads that left on either transport, in order.\<close>

fun payloads :: "effect list \<Rightarrow> input_payload list" where
  "payloads [] = []"
| "payloads (WsSendInput p b # xs) = p # payloads xs"
| "payloads (HttpPost u p # xs) = p # payloads xs"
| "payloads (x # xs) = payloads xs"

text \<open>The payloads the persistent channel accepted, and the fallback requests.\<close>

fun wsAccepted :: "effect list \<Rightarrow> input_payload list" where
  "wsAccepted [] = []"
| "wsAccepted (WsSendInput p True # xs) = p # wsAccepted xs"
| "wsAccepted (x # xs) = wsAccepted xs"

fun httpPosts :: "effect list \<Rightarrow> (string \<times> input_payload) list" where
  "httpPosts [] = []"
| "httpPosts (HttpPost u p # xs) = (u, p) # httpPosts xs"
| "httpPosts (x # xs) = httpPosts xs"

text \<open>The text deliveries a handler of the proxy made.\<close>

fun textDeliveries :: "ime_effect list \<Rightarrow> string list" where
  "textDeliveries [] = []"
| "textDeliveries (OnTextInput s # xs) = s # textDeliveries xs"
| "textDeliveries (x # xs) = textDeliveries xs"

text \<open>
  The browser's timers: \<open>schedule\<close> registers the \<^verbatim>\<open>setTimeout\<close> calls of a
  trace made at time \<open>at\<close>, each with the time it is due; nothing in the manager
  calls \<^verbatim>\<open>clearTimeout\<close>. A timer is pending until its due time.
\<close>

fun schedule :: "int \<Rightarrow> effect list \<Rightarrow> (int \<times> timer_callback) list" where
  "schedule at [] = []"
| "schedule at (SetTimeout d c # xs) = (at + int d, c) # schedule at xs"
| "schedule at (x # xs) = schedule at xs"

definition pendingAt :: "int \<Rightarrow> (int \<times> timer_callback) list \<Rightarrow> (int \<times> timer_callback) list" where
  "pendingAt time q = filter (\<lambda>(due, c). time < due) q"

text \<open>The capture-toggle notifications of a trace, each with its \<open>active\<close> detail.\<close>

fun captureToggles :: "effect list \<Rightarrow> bool list" where
  "captureToggles [] = []"
| "captureToggles (DispatchCaptureToggled b # xs) = b # captureToggles xs"
| "captureToggles (x # xs) = captureToggles xs"

text \<open>
  The guards at the head of \<^verbatim>\<open>handleKeyboardInput\<close>, read as a condition on the
  manager: a session is attached and has not exited, the proxy does not block the
  key, and the key is not a copy/paste shortcut. Under it the handler reaches the
  key mapping.
\<close>

definition reachesKeyMapping :: "input_manager \<Rightarrow> keyboard_event \<Rightarrow> key_env \<Rightarrow> bool" where
  "reachesKeyMapping m e env =
     (case session m of
        None \<Rightarrow> False
      | Some s \<Rightarrow>
          status s \<noteq> ''exited'' \<and> \<not> imeBlocks m e env \<and> \<not> isCopyPasteShortcut env e)"

text \<open>
  The event sequence \<^verbatim>\<open>compositionstart\<close>, \<^verbatim>\<open>compositionupdate(x)\<close>,
  \<^verbatim>\<open>compositionend(y)\<close> on the proxy.
\<close>

definition compositionSequence ::
  "desktop_ime_input \<Rightarrow> string \<Rightarrow> string \<Rightarrow> desktop_ime_input \<times> ime_effect list" where
  "compositionSequence i x y =
     (let (i1, effs1) = handleCompositionStart i;
          (i2, effs2) = handleCompositionUpdate i1 x;
          (i3, effs3) = handleCompositionEnd i2 y
      in (i3, effs1 @ effs2 @ effs3))"

text \<open>A wire payload is well formed when exactly one of its two fields is present.\<close>

definition exactlyOneField :: "input_payload \<Rightarrow> bool" where
  "exactlyOneField p = ((text_field p = None) \<noteq> (key_field p = None))"

section \<open>Concrete states and events\<close>

definition escapeKey :: keyboard_event where
  "escapeKey =
     \<lparr>key = ''Escape'', ctrlKey = False, altKey = False, metaKey = False, shiftKey = False\<rparr>"

definition ctrlA :: keyboard_event where
  "ctrlA = \<lparr>key = ''a'', ctrlKey = True, altKey = False, metaKey = False, shiftKey = False\<rparr>"

definition ctrlEnter :: keyboard_event where
  "ctrlEnter =
     \<lparr>key = ''Enter'', ctrlKey = True, altKey = False, metaKey = False, shiftKey = False\<rparr>"

definition plainEnv :: "int \<Rightarrow> key_env" where
  "plainEnv time =
     \<lparr>isIMEAllowedKey = (\<lambda>e. False), isCopyPasteShortcut = (\<lambda>e. False), now = time\<rparr>"

definition idleIme :: desktop_ime_input where
  "idleIme =
     \<lparr>isComposing = False, input_value = [], focused = False, opacity = ''0.01'',
      bodyComposingAttr = False, bodyFocusedAttr = False, hasOnSpecialKey = True\<rparr>"

definition composingIme :: desktop_ime_input where
  "composingIme =
     \<lparr>isComposing = True, input_value = ''ni'', focused = True, opacity = ''0.8'',
      bodyComposingAttr = True, bodyFocusedAttr = True, hasOnSpecialKey = True\<rparr>"

definition focusedIme :: desktop_ime_input where
  "focusedIme =
     \<lparr>isComposing = False, input_value = [], focused = True, opacity = ''0.8'',
      bodyComposingAttr = False, bodyFocusedAttr = True, hasOnSpecialKey = True\<rparr>"

definition activeManager :: input_manager where
  "activeManager =
     \<lparr>session = Some \<lparr>sid = ''s1'', status = ''active''\<rparr>,
      callbacks = Some \<lparr>getKeyboardCaptureActive = Some True\<rparr>,
      useWebSocketInput = True, lastEscapeTime = 0, imeInput = Some idleIme\<rparr>"

definition exitedManager :: input_manager where
  "exitedManager =
     \<lparr>session = Some \<lparr>sid = ''s1'', status = ''exited''\<rparr>,
      callbacks = Some \<lparr>getKeyboardCaptureActive = Some True\<rparr>,
      useWebSocketInput = True, lastEscapeTime = 0, imeInput = Some composingIme\<rparr>"

definition focusedManager :: input_manager where
  "focusedManager =
     \<lparr>session = Some \<lparr>sid = ''s1'', status = ''active''\<rparr>,
      callbacks = Some \<lparr>getKeyboardCaptureActive = Some True\<rparr>,
      useWebSocketInput = True, lastEscapeTime = 0, imeInput = Some focusedIme\<rparr>"

definition channelUp :: transport where
  "channelUp = \<lparr>ws_accepts = True, fetch_outcome = Response 200\<rparr>"

definition channelDown :: "nat \<Rightarrow> transport" where
  "channelDown st = \<lparr>ws_accepts = False, fetch_outcome = Response st\<rparr>"

definition proxyTarget :: paste_target where
  "proxyTarget =
     \<lparr>isImeInput = True, tagName = ''INPUT'', contentEditable = ''inherit'',
      inMonacoEditor = False, inKeybindingContext = False\<rparr>"

definition terminalTarget :: paste_target where
  "terminalTarget =
     \<lparr>isImeInput = False, tagName = ''DIV'', contentEditable = ''inherit'',
      inMonacoEditor = False, inKeybindingContext = False\<rparr>"

definition otherInputTarget :: paste_target where
  "otherInputTarget =
     \<lparr>isImeInput = False, tagName = ''INPUT'', contentEditable = ''inherit'',
      inMonacoEditor = False, inKeybindingContext = False\<rparr>"

section \<open>Facts about traces\<close>

lemma httpPosts_append: "httpPosts (xs @ ys) = httpPosts xs @ httpPosts ys"
  by (induction xs rule: httpPosts.induct) simp_all

lemma wsAccepted_append: "wsAccepted (xs @ ys) = wsAccepted xs @ wsAccepted ys"
  by (induction xs rule: wsAccepted.induct) simp_all

lemma payloads_append: "payloads (xs @ ys) = payloads xs @ payloads ys"
  by (induction xs rule: payloads.induct) simp_all

lemma captureToggles_append:
  "captureToggles (xs @ ys) = captureToggles xs @ captureToggles ys"
  by (induction xs rule: captureToggles.induct) simp_all

text \<open>Once the fallback has settled, nothing more goes out.\<close>

lemma settled_httpPosts: "httpPosts (snd (sendInputInternal_settled m c r)) = []"
  by (simp add: sendInputInternal_settled_def split: fetch_result.split option.split)

lemma settled_wsAccepted: "wsAccepted (snd (sendInputInternal_settled m c r)) = []"
  by (simp add: sendInputInternal_settled_def split: fetch_result.split option.split)

lemma settled_payloads: "payloads (snd (sendInputInternal_settled m c r)) = []"
  by (simp add: sendInputInternal_settled_def split: fetch_result.split option.split)

lemma settled_captureToggles: "captureToggles (snd (sendInputInternal_settled m c r)) = []"
  by (simp add: sendInputInternal_settled_def split: fetch_result.split option.split)

lemma settled_lastEscapeTime:
  "lastEscapeTime (fst (sendInputInternal_settled m c r)) = lastEscapeTime m"
  by (simp add: sendInputInternal_settled_def split: fetch_result.split option.split)

lemma settled_accepted:
  "response_ok st \<Longrightarrow> sendInputInternal_settled m ctx (Response st) = (m, [])"
  by (simp add: sendInputInternal_settled_def)

lemma settled_rejected:
  "session m = Some s \<Longrightarrow>
   sendInputInternal_settled m ctx (Response 400)
     = (m\<lparr>session := Some (s\<lparr>status := ''exited''\<rparr>)\<rparr>,
        if callbacks m = None then [] else [RequestUpdate])"
  by (simp add: sendInputInternal_settled_def response_ok_def split: option.split)

lemma settled_other_status:
  "\<not> response_ok st \<Longrightarrow> st \<noteq> 400 \<Longrightarrow>
   sendInputInternal_settled m ctx (Response st) = (m, [LogError (''failed to '' @ ctx)])"
  by (simp add: sendInputInternal_settled_def)

lemma settled_thrown:
  "sendInputInternal_settled m ctx FetchError = (m, [LogError (''error '' @ ctx)])"
  by (simp add: sendInputInternal_settled_def)

lemma sendInputInternal_one_post:
  "length (httpPosts (snd (sendInputInternal m input ctx t))) \<le> 1"
  using settled_httpPosts [of m ctx "fetch_outcome t"]
  by (simp add: sendInputInternal_def httpPosts_append case_prod_unfold Let_def
      split: option.split)

lemma sendInputInternal_trace:
  assumes "session m = Some s"
  shows "snd (sendInputInternal m input ctx t)
           = (if useWebSocketInput m \<and> ws_accepts t then [WsSendInput input True]
              else (if useWebSocketInput m then [WsSendInput input False] else [])
                   @ [HttpPost (sid s) input]
                   @ snd (sendInputInternal_settled m ctx (fetch_outcome t)))"
  using assms by (simp add: sendInputInternal_def case_prod_unfold Let_def)

lemma sendInputInternal_payloads:
  assumes "session m = Some s"
  shows "set (payloads (snd (sendInputInternal m input ctx t))) = {input}"
  using settled_payloads [of m ctx "fetch_outcome t"]
  by (simp add: sendInputInternal_trace [OF assms] payloads_append)

lemma sendInputInternal_payloads_subset:
  "set (payloads (snd (sendInputInternal m input ctx t))) \<subseteq> {input}"
proof (cases "session m")
  case None
  then show ?thesis by (simp add: sendInputInternal_def)
next
  case (Some s)
  then show ?thesis using sendInputInternal_payloads by simp
qed

lemma refreshIMEPosition_payloads: "payloads (refreshIMEPosition m) = []"
  by (simp add: refreshIMEPosition_def split: option.split)

lemma refreshIMEPosition_captureToggles: "captureToggles (refreshIMEPosition m) = []"
  by (simp add: refreshIMEPosition_def split: option.split)

lemma sendInput_trace:
  "snd (sendInput m k t)
     = snd (sendInputInternal m (sendInput_payload k) ''send input to session'' t)
       @ refreshIMEPosition
           (fst (sendInputInternal m (sendInput_payload k) ''send input to session'' t))"
  by (simp add: sendInput_def case_prod_unfold Let_def)

lemma sendInputText_trace:
  "snd (sendInputText m txt t)
     = snd (sendInputInternal m \<lparr>text_field = Some txt, key_field = None\<rparr>
              ''send input to session'' t)
       @ refreshIMEPosition
           (fst (sendInputInternal m \<lparr>text_field = Some txt, key_field = None\<rparr>
                   ''send input to session'' t))"
  by (simp add: sendInputText_def case_prod_unfold Let_def)

lemma sendControlSequence_trace:
  "snd (sendControlSequence m txt t)
     = snd (sendInputInternal m \<lparr>text_field = Some txt, key_field = None\<rparr>
              ''send control sequence to session'' t)
       @ refreshIMEPosition
           (fst (sendInputInternal m \<lparr>text_field = Some txt, key_field = None\<rparr>
                   ''send control sequence to session'' t))"
  by (simp add: sendControlSequence_def case_prod_unfold Let_def)

lemma sendInput_lastEscapeTime: "lastEscapeTime (fst (sendInput m k t)) = lastEscapeTime m"
  using settled_lastEscapeTime [of m "''send input to session''" "fetch_outcome t"]
  by (simp add: sendInput_def sendInputInternal_def case_prod_unfold Let_def
      split: option.split)

lemma sendInput_captureToggles: "captureToggles (snd (sendInput m k t)) = []"
  using settled_captureToggles [of m "''send input to session''" "fetch_outcome t"]
  by (simp add: sendInput_trace sendInputInternal_def case_prod_unfold Let_def
      captureToggles_append refreshIMEPosition_captureToggles split: option.split)

lemma sendInput_payloads:
  "session m = Some s \<Longrightarrow> set (payloads (snd (sendInput m k t))) = {sendInput_payload k}"
  by (simp add: sendInput_trace payloads_append refreshIMEPosition_payloads
      sendInputInternal_payloads)

section \<open>Dual-transport delivery: the claims\<close>

text \<open>
  C2. For every call that sends a resolved input while a session is attached,
  exactly one transport carries it. If the persistent channel is asked and
  reports acceptance, the payload goes out on the channel and no fallback request
  is issued. Otherwise exactly one fallback request is issued, to the session's
  endpoint and with the very same payload, and it is issued only after the
  channel has answered \<open>False\<close> (or was not asked because the feature flag is
  off): the two transports are never both used and never started side by side.
\<close>

theorem C2_exactly_one_transport:
  assumes "session m = Some s"
  shows "length (wsAccepted (snd (sendInputInternal m input ctx t)))
           + length (httpPosts (snd (sendInputInternal m input ctx t))) = 1
         \<and> (if useWebSocketInput m \<and> ws_accepts t
             then wsAccepted (snd (sendInputInternal m input ctx t)) = [input]
                \<and> httpPosts (snd (sendInputInternal m input ctx t)) = []
             else wsAccepted (snd (sendInputInternal m input ctx t)) = []
                \<and> httpPosts (snd (sendInputInternal m input ctx t)) = [(sid s, input)])
         \<and> snd (sendInputInternal m input ctx t)
             = (if useWebSocketInput m \<and> ws_accepts t then [WsSendInput input True]
                else (if useWebSocketInput m then [WsSendInput input False] else [])
                     @ [HttpPost (sid s) input]
                     @ snd (sendInputInternal_settled m ctx (fetch_outcome t)))"
proof -
  let ?after = "snd (sendInputInternal_settled m ctx (fetch_outcome t))"
  have trace: "snd (sendInputInternal m input ctx t)
      = (if useWebSocketInput m \<and> ws_accepts t then [WsSendInput input True]
         else (if useWebSocketInput m then [WsSendInput input False] else [])
              @ [HttpPost (sid s) input] @ ?after)"
    using assms by (rule sendInputInternal_trace)
  have quiet: "httpPosts ?after = []" "wsAccepted ?after = []"
    by (simp_all add: settled_httpPosts settled_wsAccepted)
  show ?thesis
  proof (cases "useWebSocketInput m \<and> ws_accepts t")
    case True
    then show ?thesis using trace by simp
  next
    case False
    then show ?thesis
      using trace quiet by (simp add: httpPosts_append wsAccepted_append)
  qed
qed

theorem C2_exactly_one_transport_witness:
  "session activeManager = Some \<lparr>sid = ''s1'', status = ''active''\<rparr>
   \<and> snd (sendInputInternal activeManager (sendInput_payload ''enter'')
            ''send input to session'' channelUp)
       = [WsSendInput \<lparr>text_field = None, key_field = Some ''enter''\<rparr> True]
   \<and> snd (sendInputInternal activeManager (sendInput_payload ''enter'')
            ''send input to session'' (channelDown 200))
       = [WsSendInput \<lparr>text_field = None, key_field = Some ''enter''\<rparr> False,
          HttpPost ''s1'' \<lparr>text_field = None, key_field = Some ''enter''\<rparr>]
   \<and> httpPosts (snd (sendInputInternal activeManager (sendInput_payload ''enter'')
            ''send input to session'' (channelDown 200)))
       = [(''s1'', \<lparr>text_field = None, key_field = Some ''enter''\<rparr>)]"
proof -
  have s: "session activeManager = Some \<lparr>sid = ''s1'', status = ''active''\<rparr>"
    by (simp add: activeManager_def)
  have p: "sendInput_payload ''enter'' = \<lparr>text_field = None, key_field = Some ''enter''\<rparr>"
    by (simp add: sendInput_payload_def specialKeys_def)
  have u: "useWebSocketInput activeManager" by (simp add: activeManager_def)
  have ok: "sendInputInternal_settled activeManager ''send input to session'' (Response 200)
      = (activeManager, [])"
    by (simp add: settled_accepted response_ok_def)
  show ?thesis
    using C2_exactly_one_transport [OF s, of "sendInput_payload ''enter''"
        "''send input to session''" channelUp]
      C2_exactly_one_transport [OF s, of "sendInput_payload ''enter''"
        "''send input to session''" "channelDown 200"]
    by (simp add: s p u ok channelUp_def channelDown_def)
qed

text \<open>
  C3, as the code has it. A response with a status from 200 to 299 is accepted
  and changes nothing. A response with status exactly 400 sets the session's
  status to \<open>exited\<close> and, when callbacks are registered, requests exactly one UI
  refresh. Every other response that is not 2xx, the other 4xx statuses among
  them, and every thrown error is logged once and dropped: no state change, and
  a send never issues more than one fallback request (no retry).
\<close>

theorem C3_fallback_result:
  "(response_ok st \<longrightarrow> sendInputInternal_settled m ctx (Response st) = (m, []))
   \<and> (session m = Some s \<longrightarrow>
        fst (sendInputInternal_settled m ctx (Response 400))
          = m\<lparr>session := Some (s\<lparr>status := ''exited''\<rparr>)\<rparr>
        \<and> count_list (snd (sendInputInternal_settled m ctx (Response 400))) RequestUpdate
          = (if callbacks m = None then 0 else 1))
   \<and> (\<not> response_ok st \<and> st \<noteq> 400 \<longrightarrow>
        sendInputInternal_settled m ctx (Response st) = (m, [LogError (''failed to '' @ ctx)]))
   \<and> sendInputInternal_settled m ctx FetchError = (m, [LogError (''error '' @ ctx)])
   \<and> length (httpPosts (snd (sendInputInternal m input ctx t))) \<le> 1"
  using sendInputInternal_one_post [of m input ctx t]
  by (simp add: settled_accepted settled_rejected settled_other_status settled_thrown)

theorem C3_fallback_result_witness:
  "response_ok 204
   \<and> sendInputInternal_settled activeManager ''send input to session'' (Response 204)
       = (activeManager, [])
   \<and> map_option status (session (fst (sendInputInternal_settled activeManager
         ''send input to session'' (Response 400)))) = Some ''exited''
   \<and> snd (sendInputInternal_settled activeManager ''send input to session'' (Response 400))
       = [RequestUpdate]
   \<and> sendInputInternal_settled activeManager ''send input to session'' (Response 503)
       = (activeManager, [LogError ''failed to send input to session''])"
  using C3_fallback_result [of 204 activeManager "''send input to session''"
      "\<lparr>sid = ''s1'', status = ''active''\<rparr>"
      "\<lparr>text_field = Some ''x'', key_field = None\<rparr>" channelUp]
    C3_fallback_result [of 503 activeManager "''send input to session''"
      "\<lparr>sid = ''s1'', status = ''active''\<rparr>"
      "\<lparr>text_field = Some ''x'', key_field = None\<rparr>" channelUp]
  by (simp add: response_ok_def activeManager_def sendInputInternal_settled_def)

text \<open>
  C3 as stated fails: 404 is a 4xx status, and a fallback response with status
  404 leaves the session \<open>active\<close> and requests no UI refresh; it is only logged.
\<close>

theorem C3_not_every_4xx_exits:
  "map_option status (session (fst (sendInputInternal_settled activeManager
       ''send input to session'' (Response 404)))) = Some ''active''
   \<and> count_list (snd (sendInputInternal_settled activeManager
       ''send input to session'' (Response 404))) RequestUpdate = 0
   \<and> snd (sendInputInternal_settled activeManager ''send input to session'' (Response 404))
       = [LogError ''failed to send input to session'']"
  by (simp add: sendInputInternal_settled_def activeManager_def response_ok_def)

section \<open>The composition proxy: the claims\<close>

text \<open>
  C4. For every composition-end event: the composing flag (the proxy's own and
  the shared body attribute) becomes false and the proxy's buffer is cleared;
  a non-empty final text is delivered exactly once, as that text; an empty final
  text is delivered zero times and a warning is logged. The same holds at the end
  of the sequence start, update(x), end(y): the only delivery is \<open>y\<close>, when it is
  not empty.
\<close>

theorem C4_composition_end:
  "isComposing (fst (handleCompositionEnd i y)) = False
   \<and> bodyComposingAttr (fst (handleCompositionEnd i y)) = False
   \<and> input_value (fst (handleCompositionEnd i y)) = []
   \<and> textDeliveries (snd (handleCompositionEnd i y)) = (if y = [] then [] else [y])
   \<and> (if y = []
       then snd (handleCompositionEnd i y)
              = [ImeLogWarn ''IME composition ended with no text'',
                 ImeSetTimeout 100 HideIfUnfocusedAndReposition]
       else snd (handleCompositionEnd i y)
              = [OnTextInput y, ImeSetTimeout 100 HideIfUnfocusedAndReposition])
   \<and> textDeliveries (snd (compositionSequence i x y)) = (if y = [] then [] else [y])
   \<and> isComposing (fst (compositionSequence i x y)) = False
   \<and> input_value (fst (compositionSequence i x y)) = []"
proof -
  have single: "handleCompositionEnd j z
      = (j\<lparr>isComposing := False, bodyComposingAttr := False, input_value := []\<rparr>,
         (if z = [] then [ImeLogWarn ''IME composition ended with no text'']
          else [OnTextInput z]) @ [ImeSetTimeout 100 HideIfUnfocusedAndReposition])" for j z
    by (simp add: handleCompositionEnd_def)
  have sequence: "compositionSequence i x y
      = handleCompositionEnd
          (showInput (i\<lparr>isComposing := True, bodyComposingAttr := True\<rparr>)) y"
    by (simp add: compositionSequence_def handleCompositionStart_def
        handleCompositionUpdate_def case_prod_unfold)
  show ?thesis
    by (simp add: sequence single)
qed

theorem C4_composition_end_witness:
  "handleCompositionEnd composingIme ''zhong''
     = (idleIme\<lparr>focused := True, opacity := ''0.8'', bodyFocusedAttr := True\<rparr>,
        [OnTextInput ''zhong'', ImeSetTimeout 100 HideIfUnfocusedAndReposition])
   \<and> textDeliveries (snd (handleCompositionEnd composingIme [])) = []
   \<and> textDeliveries (snd (compositionSequence focusedIme ''zh'' ''zhong'')) = [''zhong'']"
  using C4_composition_end [of composingIme "''zhong''" "''zh''"]
    C4_composition_end [of composingIme "[]" "''zh''"]
    C4_composition_end [of focusedIme "''zhong''" "''zh''"]
  by (simp add: handleCompositionEnd_def composingIme_def idleIme_def)

text \<open>
  C5. While the composing flag is true, a keydown maps to nothing and sends
  nothing: the proxy's keydown handler returns without a callback and without
  touching its state, for every key (the paste combinations included, which it
  leaves to the browser), and the session view's keyboard handler returns
  without an effect and without touching the manager.
\<close>

theorem C5_composing_blocks_keydown:
  assumes "isComposing i"
  shows "handleKeydown i e = (i, [])
         \<and> handleKeyboardInput (m\<lparr>imeInput := Some i\<rparr>) e env t
             = (m\<lparr>imeInput := Some i\<rparr>, [])"
proof -
  have proxy: "handleKeydown i e = (i, [])"
    using assms by (simp add: handleKeydown_def)
  have "imeBlocks (m\<lparr>imeInput := Some i\<rparr>) e env"
    using assms by (simp add: imeBlocks_def)
  then have view: "handleKeyboardInput (m\<lparr>imeInput := Some i\<rparr>) e env t
      = (m\<lparr>imeInput := Some i\<rparr>, [])"
    by (simp add: handleKeyboardInput_def split: option.split)
  show ?thesis using proxy view by simp
qed

theorem C5_composing_blocks_keydown_witness:
  "isComposing composingIme
   \<and> handleKeydown composingIme ctrlA = (composingIme, [])
   \<and> handleKeyboardInput (activeManager\<lparr>imeInput := Some composingIme\<rparr>) ctrlA
        (plainEnv 1000) channelUp
       = (activeManager\<lparr>imeInput := Some composingIme\<rparr>, [])"
proof -
  have c: "isComposing composingIme" by (simp add: composingIme_def)
  show ?thesis
    using c C5_composing_blocks_keydown [OF c, of ctrlA activeManager "plainEnv 1000" channelUp]
    by simp
qed

text \<open>
  C8, as the code has it. A paste event whose clipboard text is not empty, on the
  proxy or on an element that is not inside an input, a text area, an editable
  element, a code editor or a key-binding context, delivers that text exactly
  once and suppresses the default paste handling exactly once, whatever the
  composing flag is. A paste event with no clipboard data or with empty text
  delivers nothing and suppresses nothing.
\<close>

theorem C8_paste_with_text:
  assumes "txt \<noteq> []"
    and "isImeInput target \<or>
         (tagName target \<noteq> ''INPUT'' \<and> tagName target \<noteq> ''TEXTAREA''
          \<and> contentEditable target \<noteq> ''true''
          \<and> \<not> inMonacoEditor target \<and> \<not> inKeybindingContext target)"
  shows "snd (pasteEvent (i\<lparr>isComposing := c\<rparr>) target (Some txt))
           = [OnTextInput txt, PreventDefault]
         \<and> textDeliveries (snd (pasteEvent (i\<lparr>isComposing := c\<rparr>) target (Some txt))) = [txt]
         \<and> count_list (snd (pasteEvent (i\<lparr>isComposing := c\<rparr>) target (Some txt)))
              PreventDefault = 1
         \<and> snd (pasteEvent (i\<lparr>isComposing := c\<rparr>) target None) = []
         \<and> snd (pasteEvent (i\<lparr>isComposing := c\<rparr>) target (Some [])) = []"
proof -
  have none: "snd (pasteEvent j target None) = []" for j
    by (simp add: pasteEvent_def handlePaste_def globalPasteHandler_def)
  have empty: "snd (pasteEvent j target (Some [])) = []" for j
    by (simp add: pasteEvent_def handlePaste_def globalPasteHandler_def)
  have full: "snd (pasteEvent j target (Some txt)) = [OnTextInput txt, PreventDefault]" for j
  proof (cases "isImeInput target")
    case True
    then show ?thesis
      using assms(1) by (simp add: pasteEvent_def handlePaste_def globalPasteHandler_def)
  next
    case False
    then show ?thesis
      using assms by (simp add: pasteEvent_def globalPasteHandler_def)
  qed
  show ?thesis by (simp add: none empty full)
qed

theorem C8_paste_with_text_witness:
  "snd (pasteEvent composingIme proxyTarget (Some ''hello''))
     = [OnTextInput ''hello'', PreventDefault]
   \<and> snd (pasteEvent idleIme terminalTarget (Some ''hello''))
     = [OnTextInput ''hello'', PreventDefault]"
proof -
  have a: "composingIme\<lparr>isComposing := True\<rparr> = composingIme"
    "idleIme\<lparr>isComposing := False\<rparr> = idleIme"
    by (simp_all add: composingIme_def idleIme_def)
  have t: "isImeInput proxyTarget"
    "tagName terminalTarget \<noteq> ''INPUT'' \<and> tagName terminalTarget \<noteq> ''TEXTAREA''
          \<and> contentEditable terminalTarget \<noteq> ''true''
          \<and> \<not> inMonacoEditor terminalTarget \<and> \<not> inKeybindingContext terminalTarget"
    by (simp_all add: proxyTarget_def terminalTarget_def)
  have n: "''hello'' \<noteq> []" by simp
  show ?thesis
    using C8_paste_with_text [OF n disjI1 [OF t(1)], where i = composingIme and c = True]
      C8_paste_with_text [OF n disjI2 [OF t(2)], where i = idleIme and c = False]
    by (simp add: a)
qed

text \<open>
  C8 as stated fails: a paste event on the proxy whose clipboard holds no text
  (an image, say) delivers nothing and leaves the default handling alone, and so
  does a paste event that carries no clipboard data; a paste of text into
  another input element of the page is not delivered either.
\<close>

theorem C8_paste_without_text:
  "snd (pasteEvent focusedIme proxyTarget (Some [])) = []
   \<and> snd (pasteEvent focusedIme proxyTarget None) = []
   \<and> snd (pasteEvent focusedIme otherInputTarget (Some ''hello'')) = []"
  by (simp add: pasteEvent_def handlePaste_def globalPasteHandler_def proxyTarget_def
      otherInputTarget_def)

section \<open>Key mapping: the claims\<close>

lemma reaches_unfold:
  "reachesKeyMapping m e env \<Longrightarrow>
   \<exists>s. session m = Some s \<and> status s \<noteq> ''exited'' \<and> \<not> imeBlocks m e env
       \<and> \<not> isCopyPasteShortcut env e"
  by (cases "session m") (simp_all add: reachesKeyMapping_def)

lemma keyboard_exited_noop:
  "session m = Some s \<Longrightarrow> status s = ''exited'' \<Longrightarrow>
   handleKeyboardInput m e env t = (m, [])"
  by (simp add: handleKeyboardInput_def)

lemma escape_fresh:
  assumes "reachesKeyMapping m escapeKey env"
    and "DOUBLE_ESCAPE_THRESHOLD \<le> now env - lastEscapeTime m"
  shows "handleKeyboardInput m escapeKey env t
           = sendInput (m\<lparr>lastEscapeTime := now env\<rparr>) ''escape'' t"
proof -
  obtain s where s: "session m = Some s" "status s \<noteq> ''exited''"
      "\<not> imeBlocks m escapeKey env" "\<not> isCopyPasteShortcut env escapeKey"
    using reaches_unfold [OF assms(1)] by blast
  have k: "key escapeKey = ''Escape''" "\<not> altKey escapeKey" "\<not> ctrlKey escapeKey"
    by (simp_all add: escapeKey_def)
  have c: "ctrlCombination escapeKey ''escape'' = ''escape''"
    by (simp add: ctrlCombination_def k)
  show ?thesis
    using assms(2) by (simp add: handleKeyboardInput_def s k c)
qed

lemma escape_double:
  assumes "reachesKeyMapping m escapeKey env"
    and "now env - lastEscapeTime m < DOUBLE_ESCAPE_THRESHOLD"
  shows "handleKeyboardInput m escapeKey env t
           = (m\<lparr>lastEscapeTime := 0\<rparr>,
              (case callbacks m of
                 None \<Rightarrow> []
               | Some c \<Rightarrow>
                   [DispatchCaptureToggled
                      (\<not> (case getKeyboardCaptureActive c of
                             None \<Rightarrow> True
                           | Some b \<Rightarrow> b))]))"
proof -
  obtain s where s: "session m = Some s" "status s \<noteq> ''exited''"
      "\<not> imeBlocks m escapeKey env" "\<not> isCopyPasteShortcut env escapeKey"
    using reaches_unfold [OF assms(1)] by blast
  have k: "key escapeKey = ''Escape''" "\<not> altKey escapeKey" "\<not> ctrlKey escapeKey"
    by (simp_all add: escapeKey_def)
  show ?thesis
    using assms(2) by (simp add: handleKeyboardInput_def s k)
qed

lemma escape_payload:
  "sendInput_payload ''escape'' = \<lparr>text_field = None, key_field = Some ''escape''\<rparr>"
  by (simp add: sendInput_payload_def specialKeys_def)

lemma escape_forwarded:
  assumes "reachesKeyMapping m escapeKey env"
    and "DOUBLE_ESCAPE_THRESHOLD \<le> now env - lastEscapeTime m"
    and "handleKeyboardInput m escapeKey env t = (m', effs)"
  shows "set (payloads effs) = {\<lparr>text_field = None, key_field = Some ''escape''\<rparr>}
         \<and> captureToggles effs = [] \<and> lastEscapeTime m' = now env"
proof -
  let ?m = "m\<lparr>lastEscapeTime := now env\<rparr>"
  have p: "sendInput ?m ''escape'' t = (m', effs)"
    using assms escape_fresh by simp
  obtain s where "session m = Some s"
    using reaches_unfold [OF assms(1)] by blast
  then have s: "session ?m = Some s" by simp
  have "set (payloads (snd (sendInput ?m ''escape'' t))) = {sendInput_payload ''escape''}"
    using s by (rule sendInput_payloads)
  then have a: "set (payloads effs) = {\<lparr>text_field = None, key_field = Some ''escape''\<rparr>}"
    by (simp add: p escape_payload)
  have b: "captureToggles effs = []"
    using sendInput_captureToggles [of ?m "''escape''" t] by (simp add: p)
  have "lastEscapeTime (fst (sendInput ?m ''escape'' t)) = lastEscapeTime ?m"
    by (rule sendInput_lastEscapeTime)
  then have c: "lastEscapeTime m' = now env" by (simp add: p)
  show ?thesis using a b c by simp
qed

text \<open>
  C6, as the code has it. Three unmodified Escape presses that each reach the
  key mapping of the session view's keyboard handler (a session is attached and
  has not exited, no composition is active, and the proxy does not hold back the
  key). The first comes at least 500 ms after the recorded Escape time: it is
  forwarded as the key \<open>escape\<close>, raises no capture-toggle notification, and its
  time is recorded. The second comes less than 500 ms after the first: it is not
  delivered and resets the recorded time to 0; when callbacks are registered it
  raises exactly one capture-toggle notification (the negation of the current
  capture state, \<open>True\<close> when the optional callback is absent), and when no
  callbacks are registered it raises none. The third, however soon it comes, is
  forwarded as a fresh \<open>escape\<close> with no notification and its time recorded
  (the clock \<^verbatim>\<open>Date.now()\<close> reads at least 500).
\<close>

theorem C6_double_escape:
  assumes "reachesKeyMapping m0 escapeKey env1"
    and "DOUBLE_ESCAPE_THRESHOLD \<le> now env1 - lastEscapeTime m0"
    and "handleKeyboardInput m0 escapeKey env1 t1 = (m1, effs1)"
    and "reachesKeyMapping m1 escapeKey env2"
    and "now env2 - now env1 < DOUBLE_ESCAPE_THRESHOLD"
    and "handleKeyboardInput m1 escapeKey env2 t2 = (m2, effs2)"
    and "reachesKeyMapping m2 escapeKey env3"
    and "DOUBLE_ESCAPE_THRESHOLD \<le> now env3"
    and "handleKeyboardInput m2 escapeKey env3 t3 = (m3, effs3)"
  shows "set (payloads effs1) = {\<lparr>text_field = None, key_field = Some ''escape''\<rparr>}
         \<and> captureToggles effs1 = [] \<and> lastEscapeTime m1 = now env1
         \<and> effs2 = (case callbacks m1 of
                      None \<Rightarrow> []
                    | Some c \<Rightarrow>
                        [DispatchCaptureToggled
                           (\<not> (case getKeyboardCaptureActive c of
                                  None \<Rightarrow> True
                                | Some b \<Rightarrow> b))])
         \<and> length (captureToggles effs2) = (if callbacks m1 = None then 0 else 1)
         \<and> payloads effs2 = []
         \<and> lastEscapeTime m2 = 0
         \<and> set (payloads effs3) = {\<lparr>text_field = None, key_field = Some ''escape''\<rparr>}
         \<and> captureToggles effs3 = [] \<and> lastEscapeTime m3 = now env3"
proof -
  have first: "set (payloads effs1) = {\<lparr>text_field = None, key_field = Some ''escape''\<rparr>}
      \<and> captureToggles effs1 = [] \<and> lastEscapeTime m1 = now env1"
    using assms(1,2,3) by (rule escape_forwarded)
  then have "now env2 - lastEscapeTime m1 < DOUBLE_ESCAPE_THRESHOLD"
    using assms(5) by simp
  with assms(4) have "handleKeyboardInput m1 escapeKey env2 t2
      = (m1\<lparr>lastEscapeTime := 0\<rparr>,
         (case callbacks m1 of
            None \<Rightarrow> []
          | Some c \<Rightarrow>
              [DispatchCaptureToggled
                 (\<not> (case getKeyboardCaptureActive c of
                        None \<Rightarrow> True
                      | Some b \<Rightarrow> b))]))"
    by (rule escape_double)
  then have second: "m2 = m1\<lparr>lastEscapeTime := 0\<rparr>"
      "effs2 = (case callbacks m1 of
                  None \<Rightarrow> []
                | Some c \<Rightarrow>
                    [DispatchCaptureToggled
                       (\<not> (case getKeyboardCaptureActive c of
                              None \<Rightarrow> True
                            | Some b \<Rightarrow> b))])"
    using assms(6) by simp_all
  have toggles: "length (captureToggles effs2) = (if callbacks m1 = None then 0 else 1)"
      "payloads effs2 = []"
    by (simp_all add: second(2) split: option.split)
  have "DOUBLE_ESCAPE_THRESHOLD \<le> now env3 - lastEscapeTime m2"
    using second(1) assms(8) by simp
  with assms(7) have third:
    "set (payloads effs3) = {\<lparr>text_field = None, key_field = Some ''escape''\<rparr>}
      \<and> captureToggles effs3 = [] \<and> lastEscapeTime m3 = now env3"
    using assms(9) by (rule escape_forwarded)
  have reset: "lastEscapeTime m2 = 0"
    by (simp add: second(1))
  show ?thesis
    using first second(2) toggles reset third by simp
qed

theorem C6_double_escape_witness:
  "handleKeyboardInput activeManager escapeKey (plainEnv 1000) channelUp
     = (activeManager\<lparr>lastEscapeTime := 1000\<rparr>,
        [WsSendInput \<lparr>text_field = None, key_field = Some ''escape''\<rparr> True])
   \<and> handleKeyboardInput (activeManager\<lparr>lastEscapeTime := 1000\<rparr>) escapeKey
        (plainEnv 1200) channelUp
     = (activeManager\<lparr>lastEscapeTime := 0\<rparr>, [DispatchCaptureToggled False])
   \<and> handleKeyboardInput (activeManager\<lparr>lastEscapeTime := 0\<rparr>) escapeKey
        (plainEnv 1300) channelUp
     = (activeManager\<lparr>lastEscapeTime := 1300\<rparr>,
        [WsSendInput \<lparr>text_field = None, key_field = Some ''escape''\<rparr> True])
   \<and> length (captureToggles [DispatchCaptureToggled False]) = 1"
proof -
  have r: "reachesKeyMapping (activeManager\<lparr>lastEscapeTime := n\<rparr>) escapeKey (plainEnv k)"
    for k n
    by (simp add: reachesKeyMapping_def activeManager_def imeBlocks_def idleIme_def
        plainEnv_def)
  have r0: "reachesKeyMapping activeManager escapeKey (plainEnv 1000)"
    by (simp add: reachesKeyMapping_def activeManager_def imeBlocks_def idleIme_def
        plainEnv_def)
  have e1: "handleKeyboardInput activeManager escapeKey (plainEnv 1000) channelUp
     = (activeManager\<lparr>lastEscapeTime := 1000\<rparr>,
        [WsSendInput \<lparr>text_field = None, key_field = Some ''escape''\<rparr> True])"
    using escape_fresh [OF r0, of channelUp]
    by (simp add: activeManager_def plainEnv_def DOUBLE_ESCAPE_THRESHOLD_def sendInput_def
        sendInputInternal_def channelUp_def escape_payload refreshIMEPosition_def idleIme_def)
  have e2: "handleKeyboardInput (activeManager\<lparr>lastEscapeTime := 1000\<rparr>) escapeKey
        (plainEnv 1200) channelUp
     = (activeManager\<lparr>lastEscapeTime := 0\<rparr>, [DispatchCaptureToggled False])"
    using escape_double [OF r [of 1000 1200], of channelUp]
    by (simp add: activeManager_def plainEnv_def DOUBLE_ESCAPE_THRESHOLD_def)
  have e3: "handleKeyboardInput (activeManager\<lparr>lastEscapeTime := 0\<rparr>) escapeKey
        (plainEnv 1300) channelUp
     = (activeManager\<lparr>lastEscapeTime := 1300\<rparr>,
        [WsSendInput \<lparr>text_field = None, key_field = Some ''escape''\<rparr> True])"
    using escape_fresh [OF r [of 0 1300], of channelUp]
    by (simp add: activeManager_def plainEnv_def DOUBLE_ESCAPE_THRESHOLD_def sendInput_def
        sendInputInternal_def channelUp_def escape_payload refreshIMEPosition_def idleIme_def)
  note C6_double_escape [OF r0 _ e1 r [of 1000 1200] _ e2 r [of 0 1300] _ e3]
  then show ?thesis
    using e1 e2 e3 by (simp add: plainEnv_def DOUBLE_ESCAPE_THRESHOLD_def activeManager_def)
qed

text \<open>
  C6 as stated fails in two ways. With no callbacks registered, the second of
  two Escape presses 200 ms apart is swallowed and the timer reset, but no
  capture-toggle notification is raised. And while the proxy holds the focus,
  an Escape keydown is served by the proxy's own keydown handler, which has no
  double-press test: both of two presses are delivered as the key \<open>escape\<close>
  and none raises a notification, while the session view's handler is held back
  by the focus guard.
\<close>

theorem C6_escape_without_toggle:
  "handleKeyboardInput (activeManager\<lparr>callbacks := None\<rparr>) escapeKey (plainEnv 1000) channelUp
     = (activeManager\<lparr>callbacks := None, lastEscapeTime := 1000\<rparr>,
        [WsSendInput \<lparr>text_field = None, key_field = Some ''escape''\<rparr> True])
   \<and> handleKeyboardInput (activeManager\<lparr>callbacks := None, lastEscapeTime := 1000\<rparr>)
        escapeKey (plainEnv 1200) channelUp
     = (activeManager\<lparr>callbacks := None, lastEscapeTime := 0\<rparr>, [])
   \<and> imeEvent focusedManager (\<lambda>i. handleKeydown i escapeKey) channelUp
     = (focusedManager,
        [WsSendInput \<lparr>text_field = None, key_field = Some ''escape''\<rparr> True,
         ImeRefreshPosition, SetTimeout 50 DelayedRefreshPosition])
   \<and> imeEvent (fst (imeEvent focusedManager (\<lambda>i. handleKeydown i escapeKey) channelUp))
        (\<lambda>i. handleKeydown i escapeKey) channelUp
     = (focusedManager,
        [WsSendInput \<lparr>text_field = None, key_field = Some ''escape''\<rparr> True,
         ImeRefreshPosition, SetTimeout 50 DelayedRefreshPosition])
   \<and> handleKeyboardInput focusedManager escapeKey (plainEnv 1200) channelUp
     = (focusedManager, [])"
proof -
  let ?quiet = "activeManager\<lparr>callbacks := None\<rparr>"
  have r: "reachesKeyMapping (?quiet\<lparr>lastEscapeTime := n\<rparr>) escapeKey (plainEnv k)" for k n
    by (simp add: reachesKeyMapping_def activeManager_def imeBlocks_def idleIme_def
        plainEnv_def)
  have "handleKeyboardInput (?quiet\<lparr>lastEscapeTime := 0\<rparr>) escapeKey (plainEnv 1000) channelUp
      = sendInput (?quiet\<lparr>lastEscapeTime := 0, lastEscapeTime := 1000\<rparr>) ''escape'' channelUp"
    using escape_fresh [OF r [of 0 1000], of channelUp]
    by (simp add: plainEnv_def DOUBLE_ESCAPE_THRESHOLD_def)
  then have one: "handleKeyboardInput ?quiet escapeKey (plainEnv 1000) channelUp
     = (activeManager\<lparr>callbacks := None, lastEscapeTime := 1000\<rparr>,
        [WsSendInput \<lparr>text_field = None, key_field = Some ''escape''\<rparr> True])"
    by (simp add: activeManager_def sendInput_def sendInputInternal_def channelUp_def
        escape_payload refreshIMEPosition_def idleIme_def)
  have two: "handleKeyboardInput (activeManager\<lparr>callbacks := None, lastEscapeTime := 1000\<rparr>)
        escapeKey (plainEnv 1200) channelUp
     = (activeManager\<lparr>callbacks := None, lastEscapeTime := 0\<rparr>, [])"
    using escape_double [OF r [of 1000 1200], of channelUp]
    by (simp add: activeManager_def plainEnv_def DOUBLE_ESCAPE_THRESHOLD_def)
  have proxy: "imeEvent focusedManager (\<lambda>i. handleKeydown i escapeKey) channelUp
     = (focusedManager,
        [WsSendInput \<lparr>text_field = None, key_field = Some ''escape''\<rparr> True,
         ImeRefreshPosition, SetTimeout 50 DelayedRefreshPosition])"
    by (simp add: imeEvent_def focusedManager_def focusedIme_def handleKeydown_def
        escapeKey_def sendInput_def sendInputInternal_def channelUp_def escape_payload
        refreshIMEPosition_def)
  have "imeBlocks focusedManager escapeKey (plainEnv 1200)"
    by (simp add: imeBlocks_def focusedManager_def focusedIme_def plainEnv_def)
  then have view: "handleKeyboardInput focusedManager escapeKey (plainEnv 1200) channelUp
     = (focusedManager, [])"
    by (simp add: handleKeyboardInput_def split: option.split)
  show ?thesis
    using one two view by (simp add: proxy)
qed

lemma letter_lower:
  "n < 26 \<Longrightarrow> toLowerCase_char (char_of (97 + n)) = char_of (97 + (n::nat))"
  by (simp add: toLowerCase_char_def Let_def)

lemma letter_switch:
  assumes "(n::nat) < 26" and "key e = [char_of (97 + n)]"
  shows "switchKey e = Some [char_of (97 + n)]"
proof -
  have "char_of (97 + n) \<noteq> CHR '' ''"
  proof
    assume "char_of (97 + n) = CHR '' ''"
    then have "of_char (char_of (97 + n) :: char) = (of_char CHR '' '' :: nat)" by simp
    then show False using assms(1) by simp
  qed
  then show ?thesis
    by (simp add: switchKey_def assms(2))
qed

lemma letter_ctrl:
  assumes "(n::nat) < 26" and "key e = [char_of (97 + n)]" and "ctrlKey e"
  shows "ctrlCombination e txt = [char_of (Suc n)]"
  using assms by (simp add: ctrlCombination_def letter_lower Let_def)

lemma one_char_payload:
  "sendInput_payload [c] = \<lparr>text_field = Some [c], key_field = None\<rparr>"
  by (simp add: sendInput_payload_def specialKeys_def)

lemma ctrl_letter_mapped:
  assumes "reachesKeyMapping m e env" and "ctrlKey e" and "(n::nat) < 26"
    and "key e = [char_of (97 + n)]"
  shows "handleKeyboardInput m e env t = sendInput m [char_of (Suc n)] t"
proof -
  obtain s where s: "session m = Some s" "status s \<noteq> ''exited''"
      "\<not> imeBlocks m e env" "\<not> isCopyPasteShortcut env e"
    using reaches_unfold [OF assms(1)] by blast
  have sw: "switchKey e = Some [char_of (97 + n)]"
    using assms(3,4) by (rule letter_switch)
  have cc: "ctrlCombination e [char_of (97 + n)] = [char_of (Suc n)]"
    using assms(3,4,2) by (rule letter_ctrl)
  show ?thesis
    by (simp add: handleKeyboardInput_def s assms(2,4) sw cc)
qed

lemma ctrl_enter_mapped:
  assumes "reachesKeyMapping m e env" and "ctrlKey e" and "key e = ''Enter''"
  shows "handleKeyboardInput m e env t = sendInput m ''ctrl_enter'' t"
proof -
  obtain s where s: "session m = Some s" "status s \<noteq> ''exited''"
      "\<not> imeBlocks m e env" "\<not> isCopyPasteShortcut env e"
    using reaches_unfold [OF assms(1)] by blast
  have sw: "switchKey e = Some ''ctrl_enter''"
    by (simp add: switchKey_def assms(2,3))
  have cc: "ctrlCombination e ''ctrl_enter'' = ''ctrl_enter''"
    by (simp add: ctrlCombination_def assms(3))
  show ?thesis
    by (simp add: handleKeyboardInput_def s assms(2,3) sw cc)
qed

lemma copy_paste_untouched:
  "isCopyPasteShortcut env e \<Longrightarrow> handleKeyboardInput m e env t = (m, [])"
  by (simp add: handleKeyboardInput_def split: option.split)

text \<open>
  C7. A keydown that reaches the key mapping (so: not composing, and not a
  copy/paste shortcut) with Ctrl held, no other modifier, and the \<open>n\<close>-th letter
  of a..z as its key (code 97 + n) is sent as the text made of the one control
  character with code n + 1. Ctrl with Enter is sent as the key token
  \<open>ctrl_enter\<close>. A recognized copy/paste shortcut is never mapped: the handler
  returns with no effect.
\<close>

theorem C7_ctrl_letter:
  "(reachesKeyMapping m e env \<and> ctrlKey e \<and> \<not> altKey e \<and> \<not> metaKey e \<and> \<not> shiftKey e
      \<and> (n::nat) < 26 \<and> key e = [char_of (97 + n)]
     \<longrightarrow> handleKeyboardInput m e env t = sendInput m [char_of (Suc n)] t
        \<and> sendInput_payload [char_of (Suc n)]
            = \<lparr>text_field = Some [char_of (Suc n)], key_field = None\<rparr>)
   \<and> (reachesKeyMapping m e env \<and> ctrlKey e \<and> key e = ''Enter''
     \<longrightarrow> handleKeyboardInput m e env t = sendInput m ''ctrl_enter'' t
        \<and> sendInput_payload ''ctrl_enter''
            = \<lparr>text_field = None, key_field = Some ''ctrl_enter''\<rparr>)
   \<and> (isCopyPasteShortcut env e \<longrightarrow> handleKeyboardInput m e env t = (m, []))"
proof -
  have "sendInput_payload ''ctrl_enter''
      = \<lparr>text_field = None, key_field = Some ''ctrl_enter''\<rparr>"
    by (simp add: sendInput_payload_def specialKeys_def)
  then show ?thesis
    using ctrl_letter_mapped [of m e env n t] ctrl_enter_mapped [of m e env t]
      copy_paste_untouched [of env e m t] one_char_payload [of "char_of (Suc n)"]
    by blast
qed

theorem C7_ctrl_letter_witness:
  "handleKeyboardInput activeManager ctrlA (plainEnv 1000) channelUp
     = (activeManager, [WsSendInput \<lparr>text_field = Some [CHR 0x01], key_field = None\<rparr> True])
   \<and> handleKeyboardInput activeManager ctrlEnter (plainEnv 1000) channelUp
     = (activeManager,
        [WsSendInput \<lparr>text_field = None, key_field = Some ''ctrl_enter''\<rparr> True])
   \<and> handleKeyboardInput activeManager ctrlA
        ((plainEnv 1000)\<lparr>isCopyPasteShortcut := (\<lambda>e. True)\<rparr>) channelUp = (activeManager, [])"
proof -
  have r: "reachesKeyMapping activeManager e (plainEnv 1000)" for e
    by (simp add: reachesKeyMapping_def activeManager_def imeBlocks_def idleIme_def
        plainEnv_def)
  have "char_of (97::nat) = CHR ''a''" by (simp add: char_of_eq_iff)
  then have a: "key ctrlA = [char_of (97 + (0::nat))]" "ctrlKey ctrlA" "\<not> altKey ctrlA"
      "\<not> metaKey ctrlA" "\<not> shiftKey ctrlA"
    by (simp_all add: ctrlA_def)
  have b: "ctrlKey ctrlEnter" "key ctrlEnter = ''Enter''"
    by (simp_all add: ctrlEnter_def)
  have s: "sendInput activeManager k channelUp
      = (activeManager, [WsSendInput (sendInput_payload k) True])" for k
    by (simp add: sendInput_def sendInputInternal_def activeManager_def channelUp_def
        refreshIMEPosition_def idleIme_def)
  have c: "char_of (Suc 0) = CHR 0x01" by (simp add: char_of_eq_iff)
  show ?thesis
    using C7_ctrl_letter [of activeManager ctrlA "plainEnv 1000" 0 channelUp]
      C7_ctrl_letter [of activeManager ctrlEnter "plainEnv 1000" 0 channelUp]
      C7_ctrl_letter [of activeManager ctrlA
        "(plainEnv 1000)\<lparr>isCopyPasteShortcut := (\<lambda>e. True)\<rparr>" 0 channelUp]
      r a b
    by (simp add: s c)
qed

section \<open>Payload shape, exited sessions and repositioning\<close>

lemma exactlyOneField_payload: "exactlyOneField (sendInput_payload s)"
  by (simp add: exactlyOneField_def sendInput_payload_def)

lemma subset_singleton_all:
  assumes "set xs \<subseteq> {p}" and "P p"
  shows "list_all P xs"
  using assms by (induction xs) simp_all

text \<open>
  C10. Text that arrives through \<^verbatim>\<open>sendInputText\<close> (composed text and pastes)
  or \<^verbatim>\<open>sendControlSequence\<close> only ever leaves as the payload \<open>{text: s}\<close>,
  whatever \<open>s\<close> is, a special-key name included. The classification is made in
  \<^verbatim>\<open>sendInput\<close> alone: there \<open>s\<close> leaves as \<open>{key: s}\<close> exactly when it is in
  the special-key list and as \<open>{text: s}\<close> otherwise. Every payload that leaves has
  exactly one field, and with a session attached a payload does leave.
\<close>

theorem C10_payload_shape:
  "set (payloads (snd (sendInputText m s t))) \<subseteq> {\<lparr>text_field = Some s, key_field = None\<rparr>}
   \<and> set (payloads (snd (sendControlSequence m s t)))
       \<subseteq> {\<lparr>text_field = Some s, key_field = None\<rparr>}
   \<and> set (payloads (snd (sendInput m s t)))
       \<subseteq> {if s \<in> set specialKeys then \<lparr>text_field = None, key_field = Some s\<rparr>
          else \<lparr>text_field = Some s, key_field = None\<rparr>}
   \<and> list_all exactlyOneField (payloads (snd (sendInputText m s t)))
   \<and> list_all exactlyOneField (payloads (snd (sendControlSequence m s t)))
   \<and> list_all exactlyOneField (payloads (snd (sendInput m s t)))
   \<and> (session m \<noteq> None \<longrightarrow>
        payloads (snd (sendInputText m s t)) \<noteq> [] \<and> payloads (snd (sendInput m s t)) \<noteq> [])"
proof -
  let ?txt = "\<lparr>text_field = Some s, key_field = None\<rparr>"
  have a: "set (payloads (snd (sendInputText m s t))) \<subseteq> {?txt}"
    by (simp add: sendInputText_trace payloads_append refreshIMEPosition_payloads
        sendInputInternal_payloads_subset)
  have b: "set (payloads (snd (sendControlSequence m s t))) \<subseteq> {?txt}"
    by (simp add: sendControlSequence_trace payloads_append refreshIMEPosition_payloads
        sendInputInternal_payloads_subset)
  have c: "set (payloads (snd (sendInput m s t))) \<subseteq> {sendInput_payload s}"
    by (simp add: sendInput_trace payloads_append refreshIMEPosition_payloads
        sendInputInternal_payloads_subset)
  have one: "exactlyOneField ?txt"
    by (simp add: exactlyOneField_def)
  have d: "list_all exactlyOneField (payloads (snd (sendInputText m s t)))"
    using a one by (rule subset_singleton_all)
  have e: "list_all exactlyOneField (payloads (snd (sendControlSequence m s t)))"
    using b one by (rule subset_singleton_all)
  have f: "list_all exactlyOneField (payloads (snd (sendInput m s t)))"
    using c exactlyOneField_payload by (rule subset_singleton_all)
  have g: "payloads (snd (sendInputText m s t)) \<noteq> [] \<and> payloads (snd (sendInput m s t)) \<noteq> []"
    if attached: "session m \<noteq> None"
  proof -
    obtain se where se: "session m = Some se"
      using attached by (cases "session m") auto
    have "set (payloads (snd (sendInputText m s t))) = {?txt}"
      by (simp add: sendInputText_trace payloads_append refreshIMEPosition_payloads
          sendInputInternal_payloads [OF se])
    moreover have "set (payloads (snd (sendInput m s t))) = {sendInput_payload s}"
      using se by (rule sendInput_payloads)
    ultimately show ?thesis by auto
  qed
  show ?thesis
    using a b c d e f g by (simp add: sendInput_payload_def)
qed

theorem C10_payload_shape_witness:
  "payloads (snd (sendInputText activeManager ''enter'' channelUp))
     = [\<lparr>text_field = Some ''enter'', key_field = None\<rparr>]
   \<and> payloads (snd (sendInput activeManager ''enter'' channelUp))
     = [\<lparr>text_field = None, key_field = Some ''enter''\<rparr>]
   \<and> payloads (snd (sendInput activeManager ''ls'' channelUp))
     = [\<lparr>text_field = Some ''ls'', key_field = None\<rparr>]"
proof -
  have s: "session activeManager \<noteq> None" by (simp add: activeManager_def)
  have k: "''enter'' \<in> set specialKeys" "''ls'' \<notin> set specialKeys"
    by (simp_all add: specialKeys_def)
  have shape: "xs = [p]" if "set xs \<subseteq> {p}" and "length xs = 1" for xs :: "input_payload list" and p
    using that by (cases xs) simp_all
  have n: "length (payloads (snd (sendInputText activeManager w channelUp))) = 1"
    "length (payloads (snd (sendInput activeManager w channelUp))) = 1" for w
    by (simp_all add: sendInputText_def sendInput_def sendInputInternal_def activeManager_def
        channelUp_def refreshIMEPosition_def idleIme_def)
  show ?thesis
    using C10_payload_shape [of activeManager "''enter''" channelUp]
      C10_payload_shape [of activeManager "''ls''" channelUp] k n
    by (simp add: shape)
qed

text \<open>
  C1 does not hold of the code: only the keyboard path tests the session's
  status. On a session that has exited, the text of a composition end and the
  text of a paste on the proxy are still sent, on the persistent channel when
  it accepts and by a fallback request (answered 400 again) when it does not,
  while a keydown on the same session is dropped.
\<close>

theorem C1_exited_session_text_still_sent:
  "snd (imeEvent exitedManager (\<lambda>i. handleCompositionEnd i ''x'') channelUp)
     = [WsSendInput \<lparr>text_field = Some ''x'', key_field = None\<rparr> True,
        ImeRefreshPosition, SetTimeout 50 DelayedRefreshPosition]
   \<and> snd (imeEvent exitedManager (\<lambda>i. pasteEvent i proxyTarget (Some ''x'')) (channelDown 400))
     = [WsSendInput \<lparr>text_field = Some ''x'', key_field = None\<rparr> False,
        HttpPost ''s1'' \<lparr>text_field = Some ''x'', key_field = None\<rparr>,
        RequestUpdate, ImeRefreshPosition, SetTimeout 50 DelayedRefreshPosition]
   \<and> snd (sendInputText exitedManager ''x'' channelUp)
     = [WsSendInput \<lparr>text_field = Some ''x'', key_field = None\<rparr> True,
        ImeRefreshPosition, SetTimeout 50 DelayedRefreshPosition]
   \<and> handleKeyboardInput (exitedManager\<lparr>imeInput := None\<rparr>) ctrlA (plainEnv 1000) channelUp
     = (exitedManager\<lparr>imeInput := None\<rparr>, [])"
proof -
  have composed: "snd (imeEvent exitedManager (\<lambda>i. handleCompositionEnd i ''x'') channelUp)
     = [WsSendInput \<lparr>text_field = Some ''x'', key_field = None\<rparr> True,
        ImeRefreshPosition, SetTimeout 50 DelayedRefreshPosition]"
    by (simp add: imeEvent_def exitedManager_def composingIme_def handleCompositionEnd_def
        sendInputText_def sendInputInternal_def channelUp_def refreshIMEPosition_def)
  have pasted: "snd (imeEvent exitedManager (\<lambda>i. pasteEvent i proxyTarget (Some ''x''))
        (channelDown 400))
     = [WsSendInput \<lparr>text_field = Some ''x'', key_field = None\<rparr> False,
        HttpPost ''s1'' \<lparr>text_field = Some ''x'', key_field = None\<rparr>,
        RequestUpdate, ImeRefreshPosition, SetTimeout 50 DelayedRefreshPosition]"
    by (simp add: imeEvent_def exitedManager_def composingIme_def pasteEvent_def
        handlePaste_def globalPasteHandler_def proxyTarget_def sendInputText_def
        sendInputInternal_def channelDown_def sendInputInternal_settled_def response_ok_def
        refreshIMEPosition_def)
  have direct: "snd (sendInputText exitedManager ''x'' channelUp)
     = [WsSendInput \<lparr>text_field = Some ''x'', key_field = None\<rparr> True,
        ImeRefreshPosition, SetTimeout 50 DelayedRefreshPosition]"
    by (simp add: sendInputText_def sendInputInternal_def exitedManager_def channelUp_def
        refreshIMEPosition_def composingIme_def)
  have "session (exitedManager\<lparr>imeInput := None\<rparr>) = Some \<lparr>sid = ''s1'', status = ''exited''\<rparr>"
    by (simp add: exitedManager_def)
  then have keys: "handleKeyboardInput (exitedManager\<lparr>imeInput := None\<rparr>) ctrlA
        (plainEnv 1000) channelUp = (exitedManager\<lparr>imeInput := None\<rparr>, [])"
    by (rule keyboard_exited_noop) simp
  show ?thesis using composed pasted direct keys by simp
qed

text \<open>
  C9 does not hold of the code: \<^verbatim>\<open>refreshIMEPosition\<close> starts a new 50 ms
  timer on every send and never clears an earlier one. One send on a focused
  proxy gives the immediate reposition and one timer; a second send 10 ms later
  leaves two delayed repositions pending, due at 50 and at 60.
\<close>

theorem C9_sends_queue_repositions:
  "sendInputText focusedManager ''a'' channelUp
     = (focusedManager,
        [WsSendInput \<lparr>text_field = Some ''a'', key_field = None\<rparr> True,
         ImeRefreshPosition, SetTimeout 50 DelayedRefreshPosition])
   \<and> pendingAt 10
        (schedule 0 (snd (sendInputText focusedManager ''a'' channelUp))
         @ schedule 10 (snd (sendInputText focusedManager ''b'' channelUp)))
     = [(50, DelayedRefreshPosition), (60, DelayedRefreshPosition)]"
proof -
  have send: "sendInputText focusedManager w channelUp
     = (focusedManager,
        [WsSendInput \<lparr>text_field = Some w, key_field = None\<rparr> True,
         ImeRefreshPosition, SetTimeout 50 DelayedRefreshPosition])" for w
    by (simp add: sendInputText_def sendInputInternal_def focusedManager_def channelUp_def
        refreshIMEPosition_def focusedIme_def)
  show ?thesis
    by (simp add: send pendingAt_def)
qed

end
